theory Spec2Isabelle
  imports Main "HOL-Library.Word" "HOL-Library.Sublist"
begin

section \<open>Strings and values of the host language\<close>

text \<open>
  Identifiers, event kinds and status values are short ASCII strings in the source and are
  kept as \<open>string\<close>. Message text is a JavaScript string: a sequence of UTF-16 code
  units whose \<open>.length\<close> counts code units, so it is a list of 16-bit words.
\<close>

type_synonym jsstring = "16 word list"

definition ascii :: "string \<Rightarrow> jsstring" where
  "ascii s = map of_char s"

text \<open>\<open>xs.slice(-n)\<close> for a positive \<open>n\<close>: the last \<open>n\<close> elements, all of them when
  there are fewer.\<close>

definition slice_last :: "nat \<Rightarrow> 'a list \<Rightarrow> 'a list" where
  "slice_last n xs = drop (length xs - n) xs"

text \<open>\<open>lines.join('\n')\<close>.\<close>

fun join_nl :: "jsstring list \<Rightarrow> jsstring" where
  "join_nl [] = []"
| "join_nl [l] = l"
| "join_nl (l # k # ls) = l @ ascii [CHR 0x0A] @ join_nl (k # ls)"

section \<open>Stored messages and the history window (GeminiAgentManager)\<close>

text \<open>
  A stored message (\<open>TMessage\<close>). \<open>msg_text\<close> is \<open>content?.content\<close>:
  \<open>None\<close> when the message has no such field.
\<close>

record TMessage =
  msg_ident :: string
  msg_type :: string
  msg_position :: string
  msg_conversation :: string
  msg_text :: "jsstring option"

text \<open>What \<open>getDatabase().getConversationMessages(id, 0, 10000)\<close> gives: it may throw,
  and the \<open>data\<close> field of its result may be missing.\<close>

datatype query_result = QueryThrows | QueryResult "TMessage list option"

definition result_data :: "query_result \<Rightarrow> TMessage list" where
  "result_data q = (case q of QueryResult (Some ms) \<Rightarrow> ms | _ \<Rightarrow> [])"

definition is_text :: "TMessage \<Rightarrow> bool" where
  "is_text m = (msg_type m = ''text'')"

text \<open>\<open>data.filter((m) => m.type === 'text').slice(-20)\<close>\<close>

definition history_window :: "TMessage list \<Rightarrow> TMessage list" where
  "history_window ms = slice_last 20 (filter is_text ms)"

text \<open>The template
  \<open>`${m.position === 'right' ? 'User' : 'Assistant'}: ${m.content?.content || ''}`\<close>;
  \<open>||\<close> replaces a missing text by the empty string (and leaves an empty one empty).\<close>

definition history_line :: "TMessage \<Rightarrow> jsstring" where
  "history_line m =
     (if msg_position m = ''right'' then ascii ''User'' else ascii ''Assistant'')
     @ ascii '': ''
     @ (case msg_text m of None \<Rightarrow> [] | Some t \<Rightarrow> t)"

text \<open>\<open>lines.join('\n').slice(-4000)\<close>\<close>

definition history_text :: "TMessage list \<Rightarrow> jsstring" where
  "history_text ms = slice_last 4000 (join_nl (map history_line (history_window ms)))"

text \<open>
  \<open>injectHistoryFromDatabase\<close>: the result is the text posted to the worker under
  \<open>'init.history'\<close>, \<open>None\<close> when nothing is posted (empty text, or the query threw and
  the \<open>catch\<close> swallowed it).
\<close>

definition injectHistoryFromDatabase :: "query_result \<Rightarrow> jsstring option" where
  "injectHistoryFromDatabase q =
     (case q of
        QueryThrows \<Rightarrow> None
      | QueryResult d \<Rightarrow>
          (let text = history_text (result_data q)
           in if text \<noteq> [] then Some text else None))"

text \<open>\<open>reloadContext\<close> awaits \<open>injectHistoryFromDatabase\<close> and nothing else.\<close>

definition reloadContext :: "query_result \<Rightarrow> jsstring option" where
  "reloadContext q = injectHistoryFromDatabase q"

section \<open>Stream events and the task's listener (GeminiAgentManager.init)\<close>

text \<open>
  The \<open>data\<close> field of an event is \<open>any\<close> in the source; the code under study only
  writes strings into it or passes it on, so three shapes suffice: missing, a string, and
  any other value (kept by a rendering of it).
\<close>

datatype payload = Undefined | Text string | Other string

text \<open>An event as the backend emits it (\<open>type\<close>, \<open>data\<close>, \<open>msg_id\<close>); the listener
  stamps \<open>conversation_id\<close> on it (\<open>IResponseMessage\<close>).\<close>

record IResponseMessage =
  ev_type :: string
  ev_data :: payload
  ev_msg_id :: string
  ev_conversation_id :: "string option"

text \<open>
  A value that is thrown, or that a promise is rejected with. It may be \<open>null\<close> or
  \<open>undefined\<close>. Of any other value the code looks at whether it is an \<open>Error\<close>
  (\<open>instanceof\<close>), at its \<open>message\<close> property, when it has one, and at what
  \<open>JSON.stringify\<close> and \<open>String\<close> make of it.
\<close>

datatype nullish = JsNull | JsUndefined

record thrown_value =
  is_Error :: bool
  err_message :: "string option"
  err_json :: string
  err_string :: string

datatype js_error = Nullish nullish | Value thrown_value

definition nullish_name :: "nullish \<Rightarrow> string" where
  "nullish_name n = (case n of JsNull \<Rightarrow> ''null'' | JsUndefined \<Rightarrow> ''undefined'')"

text \<open>Reading a property of \<open>null\<close> or \<open>undefined\<close> throws a \<open>TypeError\<close>; its
  message is worded as the V8 engine words it.\<close>

definition property_TypeError :: "nullish \<Rightarrow> string \<Rightarrow> js_error" where
  "property_TypeError n prop =
     (let wording = ''Cannot read properties of '' @ nullish_name n @ '' (reading ''
                    @ [CHR 0x27] @ prop @ [CHR 0x27] @ '')''
      in Value \<lparr>is_Error = True, err_message = Some wording, err_json = ''{}'',
                err_string = ''TypeError: '' @ wording\<rparr>)"

text \<open>\<open>a || b\<close> for a string or missing \<open>a\<close>: a missing or empty \<open>a\<close> gives way to
  \<open>b\<close>.\<close>

definition or_else :: "string option \<Rightarrow> string \<Rightarrow> string" where
  "or_else a b = (case a of None \<Rightarrow> b | Some m \<Rightarrow> if m = [] then b else m)"

text \<open>\<open>e.message || JSON.stringify(e)\<close>: on \<open>null\<close> and \<open>undefined\<close> the property read
  throws (\<open>Inl\<close>).\<close>

definition message_or_json :: "js_error \<Rightarrow> js_error + string" where
  "message_or_json e =
     (case e of
        Nullish n \<Rightarrow> Inl (property_TypeError n ''message'')
      | Value v \<Rightarrow> Inr (or_else (err_message v) (err_json v)))"


text \<open>\<open>e instanceof Error ? e.message : String(e)\<close>, as the \<open>msg\<close> of an envelope.\<close>

definition message_or_string :: "js_error \<Rightarrow> string option" where
  "message_or_string e =
     (case e of
        Nullish n \<Rightarrow> Some (nullish_name n)
      | Value v \<Rightarrow> if is_Error v then err_message v else Some (err_string v))"


text \<open>The task: its conversation id and its \<open>status\<close> field (unset until first
  assigned).\<close>

record manager =
  conversation_id :: string
  status :: "string option"

text \<open>
  What a method of the task does to the world outside its own fields, in program order.
  Assignments to \<open>status\<close> are listed as well, so that their place relative to the
  other effects can be read off the trace.
\<close>

datatype effect =
    AddMessage string TMessage
  | AddOrUpdateMessage string TMessage string
  | SetStatus string
  | ResponseStream IResponseMessage
  | LocalFinish
  | SuperSendMessage jsstring string
  | Reject js_error

text \<open>
  Modelled from the spec: \<open>transformMessage\<close> of \<open>@/common/chatLib\<close> is not part of
  the sources at hand. The spec has every event kind converted to a message except the
  reasoning preview, and has start and finish events update the status only; so these
  three kinds yield no message. How a converted message is filled in is left to the
  parameter \<open>render\<close>.
\<close>

definition transformMessage ::
  "(IResponseMessage \<Rightarrow> TMessage) \<Rightarrow> IResponseMessage \<Rightarrow> TMessage option" where
  "transformMessage render ev =
     (if ev_type ev = ''start'' then None
      else if ev_type ev = ''finish'' then None
      else if ev_type ev = ''thought'' then None
      else Some (render ev))"

text \<open>
  The listener that \<open>init\<close> registers for \<open>'gemini.message'\<close>, with the transformer
  \<open>tm\<close> it calls as a parameter. It returns the task with its new status and the
  effects in order. It is the only listener for these events in the class; what
  \<open>super.init()\<close> does belongs to the base class.
\<close>

definition on_gemini_message ::
  "(IResponseMessage \<Rightarrow> TMessage option) \<Rightarrow> manager \<Rightarrow> IResponseMessage
     \<Rightarrow> manager \<times> effect list" where
  "on_gemini_message tm m data =
     (let (m1, e1) = (if ev_type data = ''finish''
                      then (m\<lparr>status := Some ''finished''\<rparr>, [SetStatus ''finished''])
                      else (m, []));
          (m2, e2) = (if ev_type data = ''start''
                      then (m1\<lparr>status := Some ''running''\<rparr>, [SetStatus ''running''])
                      else (m1, []));
          data' = data\<lparr>ev_conversation_id := Some (conversation_id m2)\<rparr>;
          e3 = (if ev_type data' \<noteq> ''thought''
                then (case tm data' of
                        Some t \<Rightarrow> [AddOrUpdateMessage (conversation_id m2) t ''gemini'']
                      | None \<Rightarrow> [])
                else [])
      in (m2, e1 @ e2 @ e3 @ [ResponseStream data']))"

fun stream_events :: "effect list \<Rightarrow> IResponseMessage list" where
  "stream_events [] = []"
| "stream_events (ResponseStream ev # es) = ev # stream_events es"
| "stream_events (e # es) = stream_events es"

fun status_writes :: "effect list \<Rightarrow> string list" where
  "status_writes [] = []"
| "status_writes (SetStatus s # es) = s # status_writes es"
| "status_writes (e # es) = status_writes es"

fun upserts :: "effect list \<Rightarrow> (string \<times> TMessage) list" where
  "upserts [] = []"
| "upserts (AddOrUpdateMessage c t k # es) = (c, t) # upserts es"
| "upserts (e # es) = upserts es"


section \<open>Sending while the bootstrap fails (GeminiAgentManager.sendMessage)\<close>

text \<open>How the promise \<open>this.bootstrap\<close> ends, if it does.\<close>

datatype bootstrap = BootFulfilled | BootRejected js_error | BootPending

text \<open>
  \<open>sendMessage\<close>. The user's message is handed to \<open>addMessage\<close> and the status set to
  pending at once. When the bootstrap rejects with \<open>e\<close>, the \<open>catch\<close> handler first
  evaluates \<open>e.message || JSON.stringify(e)\<close> for the event it is about to emit. If
  that read throws, the handler ends there and the caller's promise is rejected with the
  \<open>TypeError\<close>. Otherwise it emits an error event on the task's own emitter, which runs
  the listener above, and then rejects with \<open>e\<close> from inside the callback of
  \<open>nextTickToLocalFinish\<close>. In both cases \<open>super.sendMessage\<close> is never called. When
  the bootstrap fulfils, the send is passed to \<open>super.sendMessage\<close>. While the
  bootstrap is pending nothing more happens.
\<close>

definition sendMessage ::
  "(IResponseMessage \<Rightarrow> TMessage option) \<Rightarrow> manager \<Rightarrow> bootstrap \<Rightarrow> jsstring \<Rightarrow> string
     \<Rightarrow> manager \<times> effect list" where
  "sendMessage tm m boot input msg_id =
     (let message = \<lparr>msg_ident = msg_id, msg_type = ''text'', msg_position = ''right'',
                      msg_conversation = conversation_id m, msg_text = Some input\<rparr>;
          e0 = [AddMessage (conversation_id m) message, SetStatus ''pending''];
          m0 = m\<lparr>status := Some ''pending''\<rparr>
      in case boot of
           BootRejected e \<Rightarrow>
             (case message_or_json e of
                Inl type_error \<Rightarrow> (m0, e0 @ [Reject type_error])
              | Inr wording \<Rightarrow>
                  (let (m1, e1) = on_gemini_message tm m0
                         \<lparr>ev_type = ''error'', ev_data = Text wording,
                           ev_msg_id = msg_id, ev_conversation_id = None\<rparr>
                   in (m1, e0 @ e1 @ [LocalFinish, Reject e])))
         | BootFulfilled \<Rightarrow> (m0, e0 @ [SuperSendMessage input msg_id])
         | BootPending \<Rightarrow> (m0, e0))"

text \<open>
  Modelled from the spec: \<open>addMessage\<close>, \<open>addOrUpdateMessage\<close> and
  \<open>nextTickToLocalFinish\<close> of the module \<open>../message\<close> are not part of the sources at
  hand. Writes are queued, and the callback given to \<open>nextTickToLocalFinish\<close> runs once
  the writes queued so far are in local storage (the source's comment at the call says
  the result must only be returned after that synchronisation). \<open>synced_at_reject\<close>
  replays a trace and gives the writes that are in local storage at the moment the
  caller's promise is rejected, \<open>None\<close> when it never is.
\<close>

fun synced_at_reject ::
  "effect list \<Rightarrow> (string \<times> TMessage) list \<Rightarrow> (string \<times> TMessage) list
     \<Rightarrow> (string \<times> TMessage) list option" where
  "synced_at_reject [] queued synced = None"
| "synced_at_reject (AddMessage c t # es) queued synced =
     synced_at_reject es (queued @ [(c, t)]) synced"
| "synced_at_reject (AddOrUpdateMessage c t k # es) queued synced =
     synced_at_reject es (queued @ [(c, t)]) synced"
| "synced_at_reject (LocalFinish # es) queued synced =
     synced_at_reject es [] (synced @ queued)"
| "synced_at_reject (Reject e # es) queued synced = Some synced"
| "synced_at_reject (e # es) queued synced = synced_at_reject es queued synced"

section \<open>The task registry\<close>

text \<open>
  A live task, as far as the bridge and the registry look at it: its kind, which instance
  it is, the call ids that have an open confirmation slot, and the decisions delivered to
  suspended tool calls so far.
\<close>

record task =
  task_type :: string
  task_instance :: nat
  pending_confirmations :: "string list"
  decisions :: "(string \<times> string) list"

type_synonym registry = "(string \<times> task) list"

text \<open>
  Modelled from the spec: the module \<open>WorkerManage\<close> is not part of the sources at hand,
  only its call sites are. The spec describes a table from conversation id to live task
  with \<open>getById\<close> a pure lookup, \<open>kill\<close> removing the task from the registry,
  \<open>build\<close> registering a new task under the conversation's id in place of any prior
  one, and \<open>clear\<close> removing every task. The table is a list of entries, so that "one
  task per id" is a property to be proved and not one of the type.
\<close>

definition getTaskById :: "registry \<Rightarrow> string \<Rightarrow> task option" where
  "getTaskById reg i = map_of reg i"

definition kill :: "string \<Rightarrow> registry \<Rightarrow> registry" where
  "kill i reg = filter (\<lambda>e. fst e \<noteq> i) reg"

definition new_task :: "string \<Rightarrow> nat \<Rightarrow> task" where
  "new_task ty n =
     \<lparr>task_type = ty, task_instance = n, pending_confirmations = [], decisions = []\<rparr>"

definition register :: "string \<Rightarrow> task \<Rightarrow> registry \<Rightarrow> registry" where
  "register i t reg = kill i reg @ [(i, t)]"

text \<open>A method that changes the task found by \<open>getTaskById\<close> changes that entry.\<close>

fun put_task :: "string \<Rightarrow> task \<Rightarrow> registry \<Rightarrow> registry" where
  "put_task i t [] = []"
| "put_task i t (e # es) = (if fst e = i then (i, t) # es else e # put_task i t es)"

section \<open>Request handlers of the conversation bridge\<close>

text \<open>How an awaited promise ends, if it does.\<close>

datatype 'a settled = Fulfilled 'a | Rejected js_error | Pending

text \<open>What a handler's caller sees: a returned value, an exception, or nothing yet.\<close>

datatype 'a provider_result = Returned 'a | Thrown js_error | NeverReturns

record envelope =
  success :: bool
  msg :: "string option"

definition supported_type :: "string \<Rightarrow> bool" where
  "supported_type ty = (ty = ''gemini'' \<or> ty = ''acp'' \<or> ty = ''codex'')"

text \<open>
  \<open>ipcBridge.conversation.stop.provider\<close>. \<open>stopped\<close> is how \<open>task.stop()\<close> ends;
  the handler awaits it outside any \<open>try\<close>.
\<close>

definition stop_provider :: "registry \<Rightarrow> string \<Rightarrow> unit settled \<Rightarrow> envelope provider_result" where
  "stop_provider reg cid stopped =
     (case getTaskById reg cid of
        None \<Rightarrow> Returned \<lparr>success = True, msg = Some ''conversation not found''\<rparr>
      | Some t \<Rightarrow>
          if \<not> supported_type (task_type t)
          then Returned \<lparr>success = False, msg = Some ''not support''\<rparr>
          else (case stopped of
                  Fulfilled u \<Rightarrow> Returned \<lparr>success = True, msg = None\<rparr>
                | Rejected e \<Rightarrow> Thrown e
                | Pending \<Rightarrow> NeverReturns))"

text \<open>
  \<open>ipcBridge.conversation.sendMessage.provider\<close>. \<open>rebuilt\<close> is how the awaited
  \<open>WorkerManage.getTaskByIdRollbackBuild(conversation_id)\<close> ends, \<open>copied\<close> how
  \<open>copyFilesToDirectory\<close> ends (both awaited outside the \<open>try\<close>), and \<open>sent\<close> how
  the task's own \<open>sendMessage\<close> ends.
\<close>

definition sendMessage_provider ::
  "task option settled \<Rightarrow> unit settled \<Rightarrow> unit settled \<Rightarrow> envelope provider_result" where
  "sendMessage_provider rebuilt copied sent =
     (case rebuilt of
        Rejected e \<Rightarrow> Thrown e
      | Pending \<Rightarrow> NeverReturns
      | Fulfilled None \<Rightarrow> Returned \<lparr>success = False, msg = Some ''conversation not found''\<rparr>
      | Fulfilled (Some t) \<Rightarrow>
          (case copied of
             Rejected e \<Rightarrow> Thrown e
           | Pending \<Rightarrow> NeverReturns
           | Fulfilled u \<Rightarrow>
               if supported_type (task_type t)
               then (case sent of
                       Fulfilled v \<Rightarrow> Returned \<lparr>success = True, msg = None\<rparr>
                     | Rejected e \<Rightarrow>
                         Returned \<lparr>success = False, msg = message_or_string e\<rparr>
                     | Pending \<Rightarrow> NeverReturns)
               else Returned \<lparr>success = False,
                       msg = Some (''Unsupported task type: '' @ task_type t)\<rparr>))"

text \<open>
  \<open>ipcBridge.conversation.confirmMessage.provider\<close>. The task's \<open>confirmMessage\<close> is the
  parameter \<open>cf\<close>: given the task, the call id and the decision it returns the task
  afterwards and how its promise ends. The handler returns the registry as well, since
  the call may have changed the task.
\<close>

definition confirmMessage_provider ::
  "(task \<Rightarrow> string \<Rightarrow> string \<Rightarrow> task \<times> unit settled) \<Rightarrow> registry \<Rightarrow> string \<Rightarrow> string \<Rightarrow> string
     \<Rightarrow> registry \<times> envelope provider_result" where
  "confirmMessage_provider cf reg cid confirmKey callId =
     (case getTaskById reg cid of
        None \<Rightarrow> (reg, Returned \<lparr>success = False, msg = Some ''conversation not found''\<rparr>)
      | Some t \<Rightarrow>
          if supported_type (task_type t)
          then (let (t', ended) = cf t callId confirmKey;
                    reg' = put_task cid t' reg
                in case ended of
                     Fulfilled u \<Rightarrow> (reg', Returned \<lparr>success = True, msg = None\<rparr>)
                   | Rejected e \<Rightarrow>
                       (reg', Returned \<lparr>success = False, msg = message_or_string e\<rparr>)
                   | Pending \<Rightarrow> (reg', NeverReturns))
          else (reg, Returned \<lparr>success = False,
                       msg = Some (''Unsupported task type: '' @ task_type t)\<rparr>))"

text \<open>
  Modelled from the spec: \<open>GeminiAgentManager.confirmMessage\<close> hands the call id and the
  decision to \<open>postMessagePromise\<close>, which belongs to the base class and is not part of
  the sources at hand. The spec has \<open>confirm\<close> resolve the pending-confirmation slot
  registered under the call id, a one-shot slot, and has an unknown or stale call id be a
  no-op that never throws.
\<close>

definition confirm :: "task \<Rightarrow> string \<Rightarrow> string \<Rightarrow> task \<times> unit settled" where
  "confirm t callId decision =
     (if callId \<in> set (pending_confirmations t)
      then (t\<lparr>pending_confirmations := removeAll callId (pending_confirmations t),
               decisions := decisions t @ [(callId, decision)]\<rparr>, Fulfilled ())
      else (t, Fulfilled ()))"

text \<open>
  \<open>ipcBridge.conversation.update.provider\<close>. The database is outside the sources at
  hand, so what its two calls give is passed in: \<open>existing\<close> for
  \<open>db.getConversation(id)\<close> and \<open>updated\<close> for \<open>db.updateConversation(id, updates)\<close>.
  A model descriptor is of any type \<open>'m\<close>; the code compares descriptors by their JSON
  text only, and \<open>stringify\<close> stands for \<open>JSON.stringify\<close> on them. The call of
  \<open>WorkerManage.kill\<close> sits in a \<open>try\<close> of its own whose \<open>catch\<close> ignores the error;
  \<open>kill\<close> as modelled above does not throw.
\<close>

record 'm TChatConversation =
  conv_id :: string
  conv_type :: string
  conv_name :: string
  conv_model :: "'m option"

datatype 'm lookup = LookupThrows | Lookup bool "'m TChatConversation option"

datatype update_result = UpdateThrows | UpdateResult bool

record 'm updates =
  upd_name :: "string option"
  upd_model :: "'m option"

text \<open>\<open>existing.success ? existing.data?.model : undefined\<close>\<close>

definition prevModel :: "'m lookup \<Rightarrow> 'm option" where
  "prevModel existing =
     (case existing of
        Lookup True (Some c) \<Rightarrow> conv_model c
      | _ \<Rightarrow> None)"

text \<open>\<open>!!nextModel && JSON.stringify(prevModel) !== JSON.stringify(nextModel)\<close>; a
  descriptor is an object and so never falsy, and \<open>JSON.stringify(undefined)\<close> is
  \<open>undefined\<close>, which differs from every string.\<close>

definition modelChanged :: "('m \<Rightarrow> string) \<Rightarrow> 'm option \<Rightarrow> 'm option \<Rightarrow> bool" where
  "modelChanged stringify prev nxt =
     (case nxt of
        None \<Rightarrow> False
      | Some n \<Rightarrow> map_option stringify prev \<noteq> Some (stringify n))"

definition update_provider ::
  "('m \<Rightarrow> string) \<Rightarrow> registry \<Rightarrow> string \<Rightarrow> 'm lookup \<Rightarrow> 'm updates \<Rightarrow> update_result
     \<Rightarrow> registry \<times> bool" where
  "update_provider stringify reg i existing upd updated =
     (case existing of
        LookupThrows \<Rightarrow> (reg, False)
      | Lookup ok data \<Rightarrow>
          (case updated of
             UpdateThrows \<Rightarrow> (reg, False)
           | UpdateResult succeeded \<Rightarrow>
               (if succeeded \<and> modelChanged stringify (prevModel existing) (upd_model upd)
                then kill i reg else reg, succeeded)))"

text \<open>
  Modelled from the spec: the database behind \<open>getDatabase()\<close> is not part of the
  sources at hand. The spec has a durable record of conversations with get and update:
  \<open>get\<close> gives the stored conversation or reports its absence, and \<open>update(id,
  partial)\<close> writes the fields of the partial into the stored conversation and reports
  whether there was one.
\<close>

type_synonym 'm store = "string \<Rightarrow> 'm TChatConversation option"

definition getConversation :: "'m store \<Rightarrow> string \<Rightarrow> 'm lookup" where
  "getConversation db i =
     (case db i of None \<Rightarrow> Lookup False None | Some c \<Rightarrow> Lookup True (Some c))"

definition merge_updates :: "'m updates \<Rightarrow> 'm TChatConversation \<Rightarrow> 'm TChatConversation" where
  "merge_updates upd c =
     c\<lparr>conv_name := (case upd_name upd of None \<Rightarrow> conv_name c | Some n \<Rightarrow> n),
       conv_model := (case upd_model upd of None \<Rightarrow> conv_model c | Some m \<Rightarrow> Some m)\<rparr>"

definition updateConversation ::
  "'m store \<Rightarrow> string \<Rightarrow> 'm updates \<Rightarrow> 'm store \<times> update_result" where
  "updateConversation db i upd =
     (case db i of
        None \<Rightarrow> (db, UpdateResult False)
      | Some c \<Rightarrow> (db(i \<mapsto> merge_updates upd c), UpdateResult True))"

text \<open>The update handler run against this store: the store, the registry and the
  returned flag afterwards.\<close>

definition update_with_store ::
  "('m \<Rightarrow> string) \<Rightarrow> 'm store \<Rightarrow> registry \<Rightarrow> string \<Rightarrow> 'm updates
     \<Rightarrow> 'm store \<times> registry \<times> bool" where
  "update_with_store stringify db reg i upd =
     (let existing = getConversation db i;
          (db', updated) = updateConversation db i upd;
          (reg', succeeded) = update_provider stringify reg i existing upd updated
      in (db', reg', succeeded))"

text \<open>
  Modelled from the spec: \<open>WorkerManage.getTaskByIdRollbackBuild\<close>, as one caller meets
  it when no other request comes in between. The live task is returned if there is one;
  otherwise the conversation is loaded from the store and a task is built from it and
  registered. A built task comes with the model descriptor its constructor was given
  (\<open>GeminiAgentManager\<close> takes it as its second argument), which is the stored
  conversation's. \<open>n\<close> numbers the new instance.
\<close>

record 'm rebuilt =
  rebuilt_task :: task
  rebuilt_model :: "'m option"

definition getTaskByIdRollbackBuild ::
  "'m store \<Rightarrow> registry \<Rightarrow> nat \<Rightarrow> string \<Rightarrow> registry \<times> task option \<times> 'm rebuilt option" where
  "getTaskByIdRollbackBuild db reg n i =
     (case getTaskById reg i of
        Some t \<Rightarrow> (reg, Some t, None)
      | None \<Rightarrow>
          (case db i of
             None \<Rightarrow> (reg, None, None)
           | Some c \<Rightarrow>
               (register i (new_task (conv_type c) n) reg,
                Some (new_task (conv_type c) n),
                Some \<lparr>rebuilt_task = new_task (conv_type c) n,
                       rebuilt_model = conv_model c\<rparr>)))"

section \<open>Lazy rebuild under interleaved requests\<close>

text \<open>
  Modelled from the spec: \<open>WorkerManage.getTaskByIdRollbackBuild\<close> and
  \<open>WorkerManage.buildConversation\<close> are not part of the sources at hand. The spec has
  \<open>getOrRebuild\<close> return the live task if there is one and otherwise load the
  conversation from the store and build; a caller that finds a build for the same id in
  flight awaits that build (the spec's in-flight-build cache keyed by id). The process
  has one thread of control, so concurrent callers are interleaved at the points where
  they wait: a request runs up to its wait for the store in one step, and the completion
  of the load, the build and the answers to the waiting callers are another step.
\<close>

record world =
  tasks :: registry
  inflight :: "(string \<times> nat list) list"
  answers :: "(nat \<times> task option) list"
  built :: nat

datatype action =
    GetOrRebuild nat string
  | LoadDone string "string option"
  | Build string string
  | Kill string
  | Clear

definition build :: "string \<Rightarrow> string \<Rightarrow> world \<Rightarrow> world" where
  "build i ty w =
     w\<lparr>tasks := register i (new_task ty (built w)) (tasks w), built := Suc (built w)\<rparr>"

text \<open>
  \<open>GetOrRebuild c i\<close>: caller \<open>c\<close> asks for the task of conversation \<open>i\<close>.
  \<open>LoadDone i conv\<close>: the load started for \<open>i\<close> ends, with the type of the stored
  conversation or with nothing; every caller waiting on it gets the same answer.
  \<open>Build\<close>, \<open>Kill\<close> and \<open>Clear\<close> are the direct calls made by the create, update,
  remove and reset handlers.
\<close>

fun step :: "world \<Rightarrow> action \<Rightarrow> world" where
  "step w (GetOrRebuild c i) =
     (case getTaskById (tasks w) i of
        Some t \<Rightarrow> w\<lparr>answers := answers w @ [(c, Some t)]\<rparr>
      | None \<Rightarrow>
          (case map_of (inflight w) i of
             Some cs \<Rightarrow> w\<lparr>inflight := map (\<lambda>e. if fst e = i then (i, snd e @ [c]) else e)
                                        (inflight w)\<rparr>
           | None \<Rightarrow> w\<lparr>inflight := inflight w @ [(i, [c])]\<rparr>))"
| "step w (LoadDone i conv) =
     (case map_of (inflight w) i of
        None \<Rightarrow> w
      | Some cs \<Rightarrow>
          (let w1 = w\<lparr>inflight := filter (\<lambda>e. fst e \<noteq> i) (inflight w)\<rparr>
           in case conv of
                None \<Rightarrow> w1\<lparr>answers := answers w1 @ map (\<lambda>c. (c, None)) cs\<rparr>
              | Some ty \<Rightarrow>
                  (let w2 = build i ty w1
                   in w2\<lparr>answers := answers w2
                                      @ map (\<lambda>c. (c, getTaskById (tasks w2) i)) cs\<rparr>)))"
| "step w (Build i ty) = build i ty w"
| "step w (Kill i) = w\<lparr>tasks := kill i (tasks w)\<rparr>"
| "step w Clear = w\<lparr>tasks := []\<rparr>"

definition run :: "world \<Rightarrow> action list \<Rightarrow> world" where
  "run w acts = foldl step w acts"

definition start_world :: world where
  "start_world = \<lparr>tasks = [], inflight = [], answers = [], built = 0\<rparr>"

text \<open>The number of live tasks registered under an id.\<close>

definition live :: "world \<Rightarrow> string \<Rightarrow> nat" where
  "live w i = length (filter (\<lambda>e. fst e = i) (tasks w))"

text \<open>The number of builds in flight for an id.\<close>

definition building :: "world \<Rightarrow> string \<Rightarrow> nat" where
  "building w i = length (filter (\<lambda>e. fst e = i) (inflight w))"

section \<open>The agent: tool batches and query submission (GeminiAgent)\<close>






















section \<open>Concrete values for running the model\<close>

text \<open>A renderer to put in place of \<open>render\<close> when the model is run on an example.\<close>

definition plain_message :: "IResponseMessage \<Rightarrow> TMessage" where
  "plain_message ev =
     \<lparr>msg_ident = ev_msg_id ev, msg_type = ev_type ev, msg_position = ''left'',
      msg_conversation = (case ev_conversation_id ev of None \<Rightarrow> [] | Some c \<Rightarrow> c),
      msg_text = None\<rparr>"



definition example_registry :: registry where
  "example_registry =
     [(''c1'', \<lparr>task_type = ''gemini'', task_instance = 0,
               pending_confirmations = [''k1''], decisions = []\<rparr>)]"

section \<open>The history window is bounded\<close>

lemma length_slice_last: "length (slice_last n xs) \<le> n"
  by (simp add: slice_last_def)

lemma slice_last_short: "length xs \<le> n \<Longrightarrow> slice_last n xs = xs"
  by (simp add: slice_last_def)

lemma suffix_slice_last: "suffix (slice_last n xs) xs"
  by (simp add: slice_last_def suffix_drop)

lemma filter_history_window: "filter is_text (history_window ms) = history_window ms"
proof -
  have "set (history_window ms) \<subseteq> set (filter is_text ms)"
    unfolding history_window_def slice_last_def by (rule set_drop_subset)
  then have "\<forall>m \<in> set (history_window ms). is_text m"
    by auto
  then show ?thesis
    by (simp add: filter_id_conv)
qed

lemma history_window_idem: "history_window (history_window ms) = history_window ms"
proof -
  have "history_window (history_window ms) = slice_last 20 (history_window ms)"
    by (simp add: history_window_def [of "history_window ms"] filter_history_window)
  also have "\<dots> = history_window ms"
    by (rule slice_last_short) (simp add: history_window_def length_slice_last)
  finally show ?thesis .
qed

text \<open>
  C3. Whatever the stored messages are, the text that \<open>injectHistoryFromDatabase\<close>
  posts (at bootstrap, and through \<open>reloadContext\<close>, which runs the same code) is at
  most 4000 code units long, and it is the text obtained from the window alone: the
  window holds at most 20 messages, all of type text, and is the tail end of the
  text-typed messages in stored order.
\<close>

theorem history_text_bounded:
  assumes "injectHistoryFromDatabase q = Some text"
  shows "length text \<le> 4000
    \<and> reloadContext q = Some text
    \<and> text = history_text (history_window (result_data q))
    \<and> length (history_window (result_data q)) \<le> 20
    \<and> suffix (history_window (result_data q)) (filter is_text (result_data q))"
proof -
  from assms have t: "text = history_text (result_data q)"
    by (auto simp: injectHistoryFromDatabase_def Let_def split: query_result.splits if_splits)
  have "length text \<le> 4000"
    unfolding t history_text_def by (rule length_slice_last)
  moreover have "reloadContext q = Some text"
    using assms by (simp add: reloadContext_def)
  moreover have "text = history_text (history_window (result_data q))"
    unfolding t history_text_def by (simp add: history_window_idem)
  moreover have "length (history_window (result_data q)) \<le> 20"
    unfolding history_window_def by (rule length_slice_last)
  moreover have "suffix (history_window (result_data q)) (filter is_text (result_data q))"
    unfolding history_window_def by (rule suffix_slice_last)
  ultimately show ?thesis by simp
qed

theorem history_text_bounded_witness:
  "injectHistoryFromDatabase (QueryResult (Some [
      \<lparr>msg_ident = ''a'', msg_type = ''text'', msg_position = ''right'',
        msg_conversation = ''c'', msg_text = Some (ascii ''hi'')\<rparr>,
      \<lparr>msg_ident = ''b'', msg_type = ''tool_group'', msg_position = ''left'',
        msg_conversation = ''c'', msg_text = None\<rparr>])) = Some (ascii ''User: hi'')
   \<and> length (ascii ''User: hi'') \<le> 4000
   \<and> reloadContext (QueryResult (Some [
      \<lparr>msg_ident = ''a'', msg_type = ''text'', msg_position = ''right'',
        msg_conversation = ''c'', msg_text = Some (ascii ''hi'')\<rparr>,
      \<lparr>msg_ident = ''b'', msg_type = ''tool_group'', msg_position = ''left'',
        msg_conversation = ''c'', msg_text = None\<rparr>])) = Some (ascii ''User: hi'')"
proof -
  let ?q = "QueryResult (Some [
      \<lparr>msg_ident = ''a'', msg_type = ''text'', msg_position = ''right'',
        msg_conversation = ''c'', msg_text = Some (ascii ''hi'')\<rparr>,
      \<lparr>msg_ident = ''b'', msg_type = ''tool_group'', msg_position = ''left'',
        msg_conversation = ''c'', msg_text = None\<rparr>])"
  have h: "injectHistoryFromDatabase ?q = Some (ascii ''User: hi'')"
    by (simp add: injectHistoryFromDatabase_def history_text_def history_window_def
        is_text_def result_data_def slice_last_def history_line_def ascii_def)
  from history_text_bounded [OF h]
  have "length (ascii ''User: hi'') \<le> 4000 \<and> reloadContext ?q = Some (ascii ''User: hi'')"
    by blast
  with h show ?thesis by blast
qed

section \<open>The listener: status, persistence, republishing\<close>

lemma on_gemini_message_cases:
  "on_gemini_message tm m ev =
     (let ev' = ev\<lparr>ev_conversation_id := Some (conversation_id m)\<rparr>;
          ups = (if ev_type ev = ''thought'' then []
                 else case tm ev' of
                        Some t \<Rightarrow> [AddOrUpdateMessage (conversation_id m) t ''gemini'']
                      | None \<Rightarrow> [])
      in if ev_type ev = ''start''
         then (m\<lparr>status := Some ''running''\<rparr>, SetStatus ''running'' # ups @ [ResponseStream ev'])
         else if ev_type ev = ''finish''
         then (m\<lparr>status := Some ''finished''\<rparr>, SetStatus ''finished'' # ups @ [ResponseStream ev'])
         else (m, ups @ [ResponseStream ev']))"
  by (simp add: on_gemini_message_def Let_def split: option.split)


text \<open>
  C4, as the code has it. The listener sets the status to running on a start event and to
  finished on a finish event, and leaves it as it was on every other kind of event, an
  error event included. It does so before it republishes: the republished event is the
  last effect, it is the only one, and it is the received event with its type, data and
  message id untouched and the task's conversation id written into it.
\<close>

theorem listener_status_then_republish:
  "status (fst (on_gemini_message tm m ev)) =
     (if ev_type ev = ''start'' then Some ''running''
      else if ev_type ev = ''finish'' then Some ''finished''
      else status m)
   \<and> conversation_id (fst (on_gemini_message tm m ev)) = conversation_id m
   \<and> stream_events (snd (on_gemini_message tm m ev)) =
       [ev\<lparr>ev_conversation_id := Some (conversation_id m)\<rparr>]
   \<and> last (snd (on_gemini_message tm m ev)) =
       ResponseStream (ev\<lparr>ev_conversation_id := Some (conversation_id m)\<rparr>)
   \<and> status_writes (butlast (snd (on_gemini_message tm m ev))) =
       (if ev_type ev = ''start'' then [''running'']
        else if ev_type ev = ''finish'' then [''finished'']
        else [])"
  by (simp add: on_gemini_message_cases Let_def butlast_append split: option.split)

text \<open>
  C4 as stated fails: an error event received while the status is pending leaves it
  pending; nothing in the listener writes the status error.
\<close>

theorem error_event_status_counterexample:
  "status (fst (on_gemini_message (transformMessage plain_message)
      \<lparr>conversation_id = ''c1'', status = Some ''pending''\<rparr>
      \<lparr>ev_type = ''error'', ev_data = Text ''boom'', ev_msg_id = ''m1'',
        ev_conversation_id = None\<rparr>)) = Some ''pending''
   \<and> status (fst (on_gemini_message (transformMessage plain_message)
      \<lparr>conversation_id = ''c1'', status = Some ''pending''\<rparr>
      \<lparr>ev_type = ''error'', ev_data = Text ''boom'', ev_msg_id = ''m1'',
        ev_conversation_id = None\<rparr>)) \<noteq> Some ''error''"
  by (simp add: on_gemini_message_cases Let_def)




section \<open>A send that meets a failed bootstrap\<close>

text \<open>
  When the bootstrap promise rejects with a value other than \<open>null\<close> and
  \<open>undefined\<close>, the send hands the user's message to the store, sets the status, emits
  one event, of type error and with the send's message id, which the listener hands to
  the store and republishes, waits for local storage to be in step, and only then
  rejects the caller's promise with that value: at the moment of the rejection both the
  user's message and the error message are in local storage.
\<close>

lemma value_bootstrap_rejection_order:
  "snd (sendMessage (transformMessage render) m (BootRejected (Value v)) input mid) =
     [AddMessage (conversation_id m)
        \<lparr>msg_ident = mid, msg_type = ''text'', msg_position = ''right'',
          msg_conversation = conversation_id m, msg_text = Some input\<rparr>,
      SetStatus ''pending'',
      AddOrUpdateMessage (conversation_id m)
        (render \<lparr>ev_type = ''error'', ev_data = Text (or_else (err_message v) (err_json v)),
                  ev_msg_id = mid, ev_conversation_id = Some (conversation_id m)\<rparr>) ''gemini'',
      ResponseStream \<lparr>ev_type = ''error'', ev_data = Text (or_else (err_message v) (err_json v)),
                  ev_msg_id = mid, ev_conversation_id = Some (conversation_id m)\<rparr>,
      LocalFinish,
      Reject (Value v)]
   \<and> synced_at_reject
       (snd (sendMessage (transformMessage render) m (BootRejected (Value v)) input mid)) [] [] =
     Some [(conversation_id m,
            \<lparr>msg_ident = mid, msg_type = ''text'', msg_position = ''right'',
              msg_conversation = conversation_id m, msg_text = Some input\<rparr>),
           (conversation_id m,
            render \<lparr>ev_type = ''error'', ev_data = Text (or_else (err_message v) (err_json v)),
                    ev_msg_id = mid, ev_conversation_id = Some (conversation_id m)\<rparr>)]"
  by (simp add: sendMessage_def message_or_json_def on_gemini_message_cases
      transformMessage_def Let_def)

text \<open>
  C2 fails at a bootstrap promise rejected with \<open>null\<close> or \<open>undefined\<close>. The
  \<open>catch\<close> handler reads \<open>e.message\<close> unguarded, which throws before the event is
  emitted: no event reaches the stream, nothing is handed to the store for the error,
  \<open>nextTickToLocalFinish\<close> is not called, and the caller's promise is rejected at once,
  with the \<open>TypeError\<close>. (The \<open>catch\<close> in \<open>submitQuery\<close> reads \<open>e?.message\<close>.)
\<close>

theorem nullish_bootstrap_rejection_emits_nothing:
  "sendMessage tm m (BootRejected (Nullish n)) input mid =
     (m\<lparr>status := Some ''pending''\<rparr>,
      [AddMessage (conversation_id m)
         \<lparr>msg_ident = mid, msg_type = ''text'', msg_position = ''right'',
           msg_conversation = conversation_id m, msg_text = Some input\<rparr>,
       SetStatus ''pending'',
       Reject (property_TypeError n ''message'')])
   \<and> stream_events (snd (sendMessage tm m (BootRejected (Nullish n)) input mid)) = []
   \<and> upserts (snd (sendMessage tm m (BootRejected (Nullish n)) input mid)) = []
   \<and> LocalFinish \<notin> set (snd (sendMessage tm m (BootRejected (Nullish n)) input mid))"
  by (simp add: sendMessage_def message_or_json_def Let_def)

section \<open>The bridge handlers: confirm, stop, update\<close>

lemma getTaskById_kill: "getTaskById (kill i reg) i = None"
  by (induction reg) (auto simp: getTaskById_def kill_def)

lemma put_task_same: "getTaskById reg i = Some t \<Longrightarrow> put_task i t reg = reg"
  by (induction reg) (auto simp: getTaskById_def split: if_splits)

lemma getTaskById_put_task:
  "getTaskById reg i = Some t \<Longrightarrow> getTaskById (put_task i t' reg) i = Some t'"
  by (induction reg) (auto simp: getTaskById_def split: if_splits)

lemma put_task_twice: "put_task i t (put_task i t' reg) = put_task i t reg"
  by (induction reg) auto

lemma confirm_again:
  "confirm (fst (confirm t callId d)) callId d' = (fst (confirm t callId d), Fulfilled ())"
  by (simp add: confirm_def)

text \<open>
  C7. The confirm handler never raises: whatever the task's \<open>confirmMessage\<close> does,
  the caller gets an envelope or is still waiting, never an exception. Without a live
  task it is the failure envelope. With the confirmation table of the spec, a call id
  that has no open slot (never registered, stale or already resolved) leaves the
  registry as it was and the handler reports success; and a second confirm for the same
  call id, with any decision, changes nothing after the first and gets the same answer.
\<close>

theorem confirm_never_throws:
  "snd (confirmMessage_provider cf reg cid key callId) \<noteq> Thrown e
   \<and> (getTaskById reg cid = None \<longrightarrow>
        confirmMessage_provider cf reg cid key callId =
          (reg, Returned \<lparr>success = False, msg = Some ''conversation not found''\<rparr>))
   \<and> (\<forall>t. getTaskById reg cid = Some t \<and> supported_type (task_type t)
          \<and> callId \<notin> set (pending_confirmations t) \<longrightarrow>
        confirmMessage_provider confirm reg cid key callId =
          (reg, Returned \<lparr>success = True, msg = None\<rparr>))
   \<and> fst (confirmMessage_provider confirm
            (fst (confirmMessage_provider confirm reg cid key callId)) cid key' callId) =
       fst (confirmMessage_provider confirm reg cid key callId)
   \<and> snd (confirmMessage_provider confirm
            (fst (confirmMessage_provider confirm reg cid key callId)) cid key' callId) =
       snd (confirmMessage_provider confirm reg cid key callId)"
proof -
  have a: "snd (confirmMessage_provider cf reg cid key callId) \<noteq> Thrown e"
    by (simp add: confirmMessage_provider_def Let_def
        split: option.split prod.split settled.split)
  have b: "getTaskById reg cid = None \<longrightarrow>
        confirmMessage_provider cf reg cid key callId =
          (reg, Returned \<lparr>success = False, msg = Some ''conversation not found''\<rparr>)"
    by (simp add: confirmMessage_provider_def)
  have c: "\<forall>t. getTaskById reg cid = Some t \<and> supported_type (task_type t)
          \<and> callId \<notin> set (pending_confirmations t) \<longrightarrow>
        confirmMessage_provider confirm reg cid key callId =
          (reg, Returned \<lparr>success = True, msg = None\<rparr>)"
    by (simp add: confirmMessage_provider_def confirm_def put_task_same)
  have d: "confirmMessage_provider confirm
            (fst (confirmMessage_provider confirm reg cid key callId)) cid key' callId =
       confirmMessage_provider confirm reg cid key callId"
  proof (cases "getTaskById reg cid")
    case None
    then show ?thesis by (simp add: confirmMessage_provider_def)
  next
    case (Some t)
    show ?thesis
    proof (cases "supported_type (task_type t)")
      case False
      with Some show ?thesis by (simp add: confirmMessage_provider_def)
    next
      case True
      let ?t1 = "fst (confirm t callId key)"
      have first: "confirmMessage_provider confirm reg cid key callId =
          (put_task cid ?t1 reg, Returned \<lparr>success = True, msg = None\<rparr>)"
        using Some True by (simp add: confirmMessage_provider_def confirm_def)
      have look: "getTaskById (put_task cid ?t1 reg) cid = Some ?t1"
        using Some by (rule getTaskById_put_task)
      have ty: "supported_type (task_type ?t1)"
        using True by (simp add: confirm_def)
      have "confirmMessage_provider confirm (put_task cid ?t1 reg) cid key' callId =
          (put_task cid ?t1 (put_task cid ?t1 reg), Returned \<lparr>success = True, msg = None\<rparr>)"
        using look ty by (simp add: confirmMessage_provider_def confirm_again)
      then show ?thesis
        by (simp add: first put_task_twice)
    qed
  qed
  from a b c d show ?thesis by simp
qed

theorem confirm_never_throws_witness:
  "getTaskById example_registry ''c9'' = None
   \<and> confirmMessage_provider confirm example_registry ''c9'' ''proceed_once'' ''k1'' =
       (example_registry, Returned \<lparr>success = False, msg = Some ''conversation not found''\<rparr>)
   \<and> confirmMessage_provider confirm example_registry ''c1'' ''proceed_once'' ''zz'' =
       (example_registry, Returned \<lparr>success = True, msg = None\<rparr>)"
proof -
  let ?t = "\<lparr>task_type = ''gemini'', task_instance = 0,
               pending_confirmations = [''k1''], decisions = []\<rparr>"
  have h1: "getTaskById example_registry ''c9'' = None"
    by (simp add: example_registry_def getTaskById_def)
  have h2: "getTaskById example_registry ''c1'' = Some ?t \<and> supported_type (task_type ?t)
      \<and> ''zz'' \<notin> set (pending_confirmations ?t)"
    by (simp add: example_registry_def getTaskById_def supported_type_def)
  from confirm_never_throws [where cf = confirm and reg = example_registry and cid = "''c9''"
      and key = "''proceed_once''" and callId = "''k1''"] h1
  have a: "confirmMessage_provider confirm example_registry ''c9'' ''proceed_once'' ''k1'' =
       (example_registry, Returned \<lparr>success = False, msg = Some ''conversation not found''\<rparr>)"
    by blast
  from confirm_never_throws [where reg = example_registry and cid = "''c1''"
      and key = "''proceed_once''" and callId = "''zz''"] h2
  have b: "confirmMessage_provider confirm example_registry ''c1'' ''proceed_once'' ''zz'' =
       (example_registry, Returned \<lparr>success = True, msg = None\<rparr>)"
    by blast
  from h1 a b show ?thesis by blast
qed

text \<open>
  C9. For a conversation id with no live task the stop handler returns the success
  envelope (with the note that the conversation was not found), whereas the send handler,
  when the rebuild yields no task, returns the failure envelope.
\<close>

theorem stop_without_task_succeeds:
  assumes "getTaskById reg cid = None"
  shows "stop_provider reg cid stopped =
           Returned \<lparr>success = True, msg = Some ''conversation not found''\<rparr>
    \<and> sendMessage_provider (Fulfilled None) copied sent =
           Returned \<lparr>success = False, msg = Some ''conversation not found''\<rparr>"
  using assms by (simp add: stop_provider_def sendMessage_provider_def)

theorem stop_without_task_succeeds_witness:
  "getTaskById [] ''c1'' = None
   \<and> stop_provider [] ''c1'' (Fulfilled ()) =
       Returned \<lparr>success = True, msg = Some ''conversation not found''\<rparr>
   \<and> sendMessage_provider (Fulfilled None) (Fulfilled ()) (Fulfilled ()) =
       Returned \<lparr>success = False, msg = Some ''conversation not found''\<rparr>"
proof -
  have h: "getTaskById [] ''c1'' = None"
    by (simp add: getTaskById_def)
  from stop_without_task_succeeds [OF h] h show ?thesis by blast
qed

lemma update_with_store_found:
  "db i = Some c \<Longrightarrow>
   update_with_store stringify db reg i upd =
     (db(i \<mapsto> merge_updates upd c),
      if modelChanged stringify (conv_model c) (upd_model upd) then kill i reg else reg,
      True)"
  by (simp add: update_with_store_def getConversation_def updateConversation_def
      update_provider_def prevModel_def)

text \<open>
  C8. Let the store hold a conversation under the id. If the update carries a model
  that differs from the stored one (descriptors being told apart by their JSON text),
  the store takes the new model, the handler reports success and kills the task of that
  id: the registry is the old one without it and a lookup finds none, so that the next
  send rebuilds, from the stored conversation, a task that is constructed with the new
  model. If the update carries no model, or the stored one, the registry is left as it
  was and the live task stays registered.
\<close>

theorem update_kills_on_model_change:
  "(inj stringify \<and> db i = Some c \<and> upd_model upd = Some n \<and> conv_model c \<noteq> Some n \<longrightarrow>
      update_with_store stringify db reg i upd = (db(i \<mapsto> merge_updates upd c), kill i reg, True)
      \<and> getTaskById (kill i reg) i = None
      \<and> getTaskByIdRollbackBuild (db(i \<mapsto> merge_updates upd c)) (kill i reg) k i =
          (register i (new_task (conv_type c) k) (kill i reg),
           Some (new_task (conv_type c) k),
           Some \<lparr>rebuilt_task = new_task (conv_type c) k, rebuilt_model = Some n\<rparr>))
   \<and> (db i = Some c \<and> (upd_model upd = None \<or> upd_model upd = conv_model c) \<longrightarrow>
      fst (snd (update_with_store stringify db reg i upd)) = reg
      \<and> getTaskById (fst (snd (update_with_store stringify db reg i upd))) i = getTaskById reg i)"
proof -
  have a: "inj stringify \<and> db i = Some c \<and> upd_model upd = Some n \<and> conv_model c \<noteq> Some n \<longrightarrow>
      update_with_store stringify db reg i upd = (db(i \<mapsto> merge_updates upd c), kill i reg, True)
      \<and> getTaskById (kill i reg) i = None
      \<and> getTaskByIdRollbackBuild (db(i \<mapsto> merge_updates upd c)) (kill i reg) k i =
          (register i (new_task (conv_type c) k) (kill i reg),
           Some (new_task (conv_type c) k),
           Some \<lparr>rebuilt_task = new_task (conv_type c) k, rebuilt_model = Some n\<rparr>)"
  proof (intro impI, elim conjE)
    assume inj: "inj stringify" and found: "db i = Some c"
      and nm: "upd_model upd = Some n" and diff: "conv_model c \<noteq> Some n"
    have "map_option stringify (conv_model c) \<noteq> Some (stringify n)"
    proof (cases "conv_model c")
      case None
      then show ?thesis by simp
    next
      case (Some p)
      with diff have "p \<noteq> n" by simp
      with inj have "stringify p \<noteq> stringify n" by (auto dest: injD)
      with Some show ?thesis by simp
    qed
    then have ch: "modelChanged stringify (conv_model c) (upd_model upd)"
      using nm by (simp add: modelChanged_def)
    have u: "update_with_store stringify db reg i upd =
        (db(i \<mapsto> merge_updates upd c), kill i reg, True)"
      using found ch by (simp add: update_with_store_found)
    have r: "getTaskByIdRollbackBuild (db(i \<mapsto> merge_updates upd c)) (kill i reg) k i =
          (register i (new_task (conv_type c) k) (kill i reg),
           Some (new_task (conv_type c) k),
           Some \<lparr>rebuilt_task = new_task (conv_type c) k, rebuilt_model = Some n\<rparr>)"
      using nm by (simp add: getTaskByIdRollbackBuild_def getTaskById_kill merge_updates_def)
    from u r show "update_with_store stringify db reg i upd =
        (db(i \<mapsto> merge_updates upd c), kill i reg, True)
      \<and> getTaskById (kill i reg) i = None
      \<and> getTaskByIdRollbackBuild (db(i \<mapsto> merge_updates upd c)) (kill i reg) k i =
          (register i (new_task (conv_type c) k) (kill i reg),
           Some (new_task (conv_type c) k),
           Some \<lparr>rebuilt_task = new_task (conv_type c) k, rebuilt_model = Some n\<rparr>)"
      by (simp add: getTaskById_kill)
  qed
  have b: "db i = Some c \<and> (upd_model upd = None \<or> upd_model upd = conv_model c) \<longrightarrow>
      fst (snd (update_with_store stringify db reg i upd)) = reg
      \<and> getTaskById (fst (snd (update_with_store stringify db reg i upd))) i = getTaskById reg i"
  proof (intro impI, elim conjE)
    assume found: "db i = Some c"
      and same: "upd_model upd = None \<or> upd_model upd = conv_model c"
    from same have "\<not> modelChanged stringify (conv_model c) (upd_model upd)"
      by (auto simp: modelChanged_def split: option.split)
    with found have "fst (snd (update_with_store stringify db reg i upd)) = reg"
      by (simp add: update_with_store_found)
    then show "fst (snd (update_with_store stringify db reg i upd)) = reg
      \<and> getTaskById (fst (snd (update_with_store stringify db reg i upd))) i = getTaskById reg i"
      by simp
  qed
  show ?thesis by (rule conjI [OF a b])
qed

theorem update_kills_on_model_change_witness:
  "update_with_store (\<lambda>x. x)
       [''c1'' \<mapsto> \<lparr>conv_id = ''c1'', conv_type = ''gemini'', conv_name = ''chat'',
                      conv_model = Some ''M1''\<rparr>]
       example_registry ''c1'' \<lparr>upd_name = None, upd_model = Some ''M2''\<rparr> =
     ([''c1'' \<mapsto> \<lparr>conv_id = ''c1'', conv_type = ''gemini'', conv_name = ''chat'',
                      conv_model = Some ''M2''\<rparr>], [], True)
   \<and> getTaskByIdRollbackBuild
       [''c1'' \<mapsto> \<lparr>conv_id = ''c1'', conv_type = ''gemini'', conv_name = ''chat'',
                      conv_model = Some ''M2''\<rparr>] [] 1 ''c1'' =
     ([(''c1'', new_task ''gemini'' 1)], Some (new_task ''gemini'' 1),
      Some \<lparr>rebuilt_task = new_task ''gemini'' 1, rebuilt_model = Some ''M2''\<rparr>)
   \<and> fst (snd (update_with_store (\<lambda>x. x)
       [''c1'' \<mapsto> \<lparr>conv_id = ''c1'', conv_type = ''gemini'', conv_name = ''chat'',
                      conv_model = Some ''M1''\<rparr>]
       example_registry ''c1'' \<lparr>upd_name = Some ''renamed'', upd_model = Some ''M1''\<rparr>)) =
     example_registry"
proof -
  let ?c = "\<lparr>conv_id = ''c1'', conv_type = ''gemini'', conv_name = ''chat'',
             conv_model = Some ''M1''\<rparr>"
  let ?db = "[''c1'' \<mapsto> ?c]"
  let ?u2 = "\<lparr>upd_name = None, upd_model = Some ''M2''\<rparr>"
  let ?u1 = "\<lparr>upd_name = Some ''renamed'', upd_model = Some ''M1''\<rparr>"
  have h1: "inj (\<lambda>x::string. x) \<and> ?db ''c1'' = Some ?c \<and> upd_model ?u2 = Some ''M2''
      \<and> conv_model ?c \<noteq> Some ''M2''"
    by simp
  have h2: "?db ''c1'' = Some ?c \<and> (upd_model ?u1 = None \<or> upd_model ?u1 = conv_model ?c)"
    by simp
  from update_kills_on_model_change [where stringify = "\<lambda>x. x" and db = ?db and i = "''c1''"
      and c = ?c and upd = ?u2 and n = "''M2''" and reg = example_registry and k = 1] h1
  have a: "update_with_store (\<lambda>x. x) ?db example_registry ''c1'' ?u2 =
        (?db(''c1'' \<mapsto> merge_updates ?u2 ?c), kill ''c1'' example_registry, True)
      \<and> getTaskByIdRollbackBuild (?db(''c1'' \<mapsto> merge_updates ?u2 ?c))
          (kill ''c1'' example_registry) 1 ''c1'' =
          (register ''c1'' (new_task (conv_type ?c) 1) (kill ''c1'' example_registry),
           Some (new_task (conv_type ?c) 1),
           Some \<lparr>rebuilt_task = new_task (conv_type ?c) 1, rebuilt_model = Some ''M2''\<rparr>)"
    by blast
  from update_kills_on_model_change [where stringify = "\<lambda>x. x" and db = ?db and i = "''c1''"
      and c = ?c and upd = ?u1 and reg = example_registry] h2
  have b: "fst (snd (update_with_store (\<lambda>x. x) ?db example_registry ''c1'' ?u1)) =
      example_registry"
    by blast
  have k: "kill ''c1'' example_registry = []"
    by (simp add: kill_def example_registry_def)
  have m: "?db(''c1'' \<mapsto> merge_updates ?u2 ?c) =
      [''c1'' \<mapsto> \<lparr>conv_id = ''c1'', conv_type = ''gemini'', conv_name = ''chat'',
                      conv_model = Some ''M2''\<rparr>]"
    by (simp add: merge_updates_def)
  have r: "register ''c1'' (new_task (conv_type ?c) 1) [] = [(''c1'', new_task ''gemini'' 1)]"
    by (simp add: register_def kill_def)
  from a b show ?thesis
    unfolding k m r by simp
qed

section \<open>One live task per conversation\<close>

lemma kill_no_entry: "filter (\<lambda>e. fst e = i) (kill i reg) = []"
  by (induction reg) (auto simp: kill_def)

lemma getTaskById_register: "getTaskById (register i t reg) i = Some t"
  using getTaskById_kill [of i reg]
  by (simp add: register_def getTaskById_def map_add_def)

lemma distinct_kill: "distinct (map fst reg) \<Longrightarrow> distinct (map fst (kill i reg))"
  by (simp add: kill_def distinct_map_filter)

lemma distinct_register:
  "distinct (map fst reg) \<Longrightarrow> distinct (map fst (register i t reg))"
  by (auto simp: register_def distinct_kill) (auto simp: kill_def)

lemma step_distinct:
  "distinct (map fst (tasks w)) \<Longrightarrow> distinct (map fst (tasks (step w a)))"
  by (cases a)
     (auto simp: build_def Let_def distinct_register distinct_kill
           split: option.split)

lemma run_distinct:
  "distinct (map fst (tasks w)) \<Longrightarrow> distinct (map fst (tasks (run w acts)))"
  unfolding run_def
  by (induction acts arbitrary: w) (simp_all add: step_distinct)

lemma distinct_at_most_one:
  "distinct (map fst reg) \<Longrightarrow> length (filter (\<lambda>e. fst e = i) reg) \<le> 1"
  by (induction reg) (auto simp: filter_empty_conv image_iff)

lemma absent_map_id:
  "map_of xs i = None \<Longrightarrow> map (\<lambda>e. if fst e = i then f e else e) xs = xs"
  by (induction xs) (auto split: if_splits)

lemma absent_filter_id:
  "map_of xs i = None \<Longrightarrow> filter (\<lambda>e. fst e \<noteq> i) xs = xs"
  by (induction xs) (auto split: if_splits)

lemma request_waits:
  assumes "getTaskById (tasks w) i = None" and "map_of (inflight w) i = None"
  shows "run w [GetOrRebuild c1 i, GetOrRebuild c2 i] =
           w\<lparr>inflight := inflight w @ [(i, [c1, c2])]\<rparr>"
  using assms by (simp add: run_def map_add_def absent_map_id)

lemma load_answers_all:
  assumes "map_of (inflight w) i = None"
  shows "step (w\<lparr>inflight := inflight w @ [(i, cs)]\<rparr>) (LoadDone i (Some ty)) =
           w\<lparr>tasks := register i (new_task ty (built w)) (tasks w),
              built := Suc (built w),
              answers := answers w @ map (\<lambda>c. (c, Some (new_task ty (built w)))) cs\<rparr>"
  using assms
  by (simp add: map_add_def build_def Let_def absent_filter_id getTaskById_register)

lemma keys_after_join: "fst \<circ> (\<lambda>e. if fst e = i then (i, f e) else e) = fst"
  by (rule ext) simp

lemma step_inflight_distinct:
  "distinct (map fst (inflight w)) \<Longrightarrow> distinct (map fst (inflight (step w a)))"
proof (cases a)
  case (GetOrRebuild c i)
  assume d: "distinct (map fst (inflight w))"
  show ?thesis
  proof (cases "getTaskById (tasks w) i")
    case (Some t)
    with d GetOrRebuild show ?thesis by simp
  next
    case None
    show ?thesis
    proof (cases "map_of (inflight w) i")
      case (Some cs)
      with d GetOrRebuild None show ?thesis by (simp add: keys_after_join)
    next
      case no: None
      then have "i \<notin> fst ` set (inflight w)"
        by (simp add: map_of_eq_None_iff)
      with d GetOrRebuild None no show ?thesis by simp
    qed
  qed
next
  case (LoadDone i conv)
  assume "distinct (map fst (inflight w))"
  then have "distinct (map fst (filter (\<lambda>e. fst e \<noteq> i) (inflight w)))"
    by (rule distinct_map_filter)
  with \<open>distinct (map fst (inflight w))\<close> LoadDone show ?thesis
    by (simp add: build_def Let_def split: option.split)
qed (simp_all add: build_def)

lemma run_inflight_distinct:
  "distinct (map fst (inflight w)) \<Longrightarrow> distinct (map fst (inflight (run w acts)))"
  unfolding run_def
  by (induction acts arbitrary: w) (simp_all add: step_inflight_distinct)

lemma request_builds_nothing:
  "tasks (step w (GetOrRebuild c i)) = tasks w \<and> built (step w (GetOrRebuild c i)) = built w"
  by (simp split: option.split)

text \<open>
  C1. In every state reached from the empty registry by any interleaving of requests,
  load completions, builds, kills and clears, an id has at most one live task and at
  most one build in flight, and a request by itself never builds or registers anything.
  And when two callers ask for an id that has neither a task nor a build in flight, the
  first request starts the one load, the second joins its waiters, and the completion of
  the load builds a single task instance, registers it alone under the id and answers
  both callers with it.
\<close>

theorem one_live_task_per_id:
  "live (run start_world acts) i \<le> 1
   \<and> building (run start_world acts) i \<le> 1
   \<and> tasks (step w (GetOrRebuild c i)) = tasks w
   \<and> built (step w (GetOrRebuild c i)) = built w
   \<and> (getTaskById (tasks w) i = None \<and> map_of (inflight w) i = None \<longrightarrow>
        run w [GetOrRebuild c1 i, GetOrRebuild c2 i] =
          w\<lparr>inflight := inflight w @ [(i, [c1, c2])]\<rparr>
        \<and> run w [GetOrRebuild c1 i, GetOrRebuild c2 i, LoadDone i (Some ty)] =
          w\<lparr>tasks := register i (new_task ty (built w)) (tasks w),
             built := Suc (built w),
             answers := answers w @ [(c1, Some (new_task ty (built w))),
                                     (c2, Some (new_task ty (built w)))]\<rparr>
        \<and> live (run w [GetOrRebuild c1 i, GetOrRebuild c2 i, LoadDone i (Some ty)]) i = 1)"
proof -
  have inv: "live (run start_world acts) i \<le> 1"
    unfolding live_def
    by (rule distinct_at_most_one, rule run_distinct) (simp add: start_world_def)
  have inv2: "building (run start_world acts) i \<le> 1"
    unfolding building_def
    by (rule distinct_at_most_one, rule run_inflight_distinct) (simp add: start_world_def)
  have req: "tasks (step w (GetOrRebuild c i)) = tasks w
      \<and> built (step w (GetOrRebuild c i)) = built w"
    by (rule request_builds_nothing)
  have scen: "getTaskById (tasks w) i = None \<and> map_of (inflight w) i = None \<longrightarrow>
        run w [GetOrRebuild c1 i, GetOrRebuild c2 i] =
          w\<lparr>inflight := inflight w @ [(i, [c1, c2])]\<rparr>
        \<and> run w [GetOrRebuild c1 i, GetOrRebuild c2 i, LoadDone i (Some ty)] =
          w\<lparr>tasks := register i (new_task ty (built w)) (tasks w),
             built := Suc (built w),
             answers := answers w @ [(c1, Some (new_task ty (built w))),
                                     (c2, Some (new_task ty (built w)))]\<rparr>
        \<and> live (run w [GetOrRebuild c1 i, GetOrRebuild c2 i, LoadDone i (Some ty)]) i = 1"
  proof (intro impI, elim conjE)
    assume a: "getTaskById (tasks w) i = None" and b: "map_of (inflight w) i = None"
    have r2: "run w [GetOrRebuild c1 i, GetOrRebuild c2 i] =
          w\<lparr>inflight := inflight w @ [(i, [c1, c2])]\<rparr>"
      using a b by (rule request_waits)
    have "run w [GetOrRebuild c1 i, GetOrRebuild c2 i, LoadDone i (Some ty)] =
          step (run w [GetOrRebuild c1 i, GetOrRebuild c2 i]) (LoadDone i (Some ty))"
      by (simp add: run_def)
    also have "\<dots> = w\<lparr>tasks := register i (new_task ty (built w)) (tasks w),
             built := Suc (built w),
             answers := answers w @ map (\<lambda>c. (c, Some (new_task ty (built w)))) [c1, c2]\<rparr>"
      unfolding r2 using b by (rule load_answers_all)
    finally have r3: "run w [GetOrRebuild c1 i, GetOrRebuild c2 i, LoadDone i (Some ty)] =
          w\<lparr>tasks := register i (new_task ty (built w)) (tasks w),
             built := Suc (built w),
             answers := answers w @ [(c1, Some (new_task ty (built w))),
                                     (c2, Some (new_task ty (built w)))]\<rparr>"
      by simp
    have "live (run w [GetOrRebuild c1 i, GetOrRebuild c2 i, LoadDone i (Some ty)]) i = 1"
      unfolding r3 by (simp add: live_def register_def kill_no_entry)
    with r2 r3 show "run w [GetOrRebuild c1 i, GetOrRebuild c2 i] =
          w\<lparr>inflight := inflight w @ [(i, [c1, c2])]\<rparr>
        \<and> run w [GetOrRebuild c1 i, GetOrRebuild c2 i, LoadDone i (Some ty)] =
          w\<lparr>tasks := register i (new_task ty (built w)) (tasks w),
             built := Suc (built w),
             answers := answers w @ [(c1, Some (new_task ty (built w))),
                                     (c2, Some (new_task ty (built w)))]\<rparr>
        \<and> live (run w [GetOrRebuild c1 i, GetOrRebuild c2 i, LoadDone i (Some ty)]) i = 1"
      by simp
  qed
  from inv inv2 req scen show ?thesis by blast
qed

theorem one_live_task_per_id_witness:
  "getTaskById (tasks start_world) ''c1'' = None
   \<and> map_of (inflight start_world) ''c1'' = None
   \<and> live (run start_world
        [GetOrRebuild 1 ''c1'', GetOrRebuild 2 ''c1'', LoadDone ''c1'' (Some ''gemini'')])
        ''c1'' = 1"
proof -
  have h: "getTaskById (tasks start_world) ''c1'' = None
      \<and> map_of (inflight start_world) ''c1'' = None"
    by (simp add: start_world_def getTaskById_def)
  from one_live_task_per_id [where w = start_world and i = "''c1''" and ?c1.0 = 1
      and ?c2.0 = 2 and ty = "''gemini''"] h
  show ?thesis by blast
qed

section \<open>Tool batches and query submission\<close>
















end
